theory Spec2Isabelle
  imports Main
begin

section \<open>The feature herald of olgm (src/olgm/herald/feature.js)\<close>

text \<open>
  The Feature herald keeps one OpenLayers vector feature and its Google Maps mirror in step.
  Its methods are embedded as functions on a pair: the fields of the herald object (the
  bridge) and the part of the surrounding object graph that the methods read and write (the
  world). Objects that have an identity in the program (geometries, listener keys, the mirror
  feature, the overlays) carry a reference number taken from an allocation counter.
\<close>

subsection \<open>OpenLayers side\<close>

type_synonym ref = nat

type_synonym coordinate = "int \<times> int"

text \<open>A geometry object: its identity and its current shape, which is mutable in place.\<close>

record ol_geometry =
  geom_id :: ref
  coordinates :: "coordinate list"

text \<open>
  \<open>style.getImage()\<close> is an image style or null; \<open>image instanceof Icon\<close> separates the
  icon images from the other image styles.
\<close>

datatype ol_image = Icon string | RegularShape

datatype ol_text = Text string

record ol_style =
  getZIndex :: "int option"
  getImage :: "ol_image option"
  getText :: "ol_text option"

text \<open>
  What \<open>feature.getGeometry()\<close> returns: \<open>undefined\<close> when no geometry was ever set,
  \<open>null\<close> when the geometry was set to null (as for a GeoJSON feature whose geometry is
  null), or a geometry object.
\<close>

datatype js_geometry = Undefined | Null | Geometry ol_geometry

text \<open>The source feature. \<open>geometry_value\<close> is the value that \<open>feature.getGeometry()\<close> returns.\<close>

record ol_feature =
  geometry_value :: js_geometry
  getGeometryName :: string
  getStyle :: "ol_style option"

text \<open>The geometry object attached to the feature, when there is one.\<close>

definition getGeometry :: "ol_feature \<Rightarrow> ol_geometry option" where
  "getGeometry ft = (case geometry_value ft of Geometry g \<Rightarrow> Some g | _ \<Rightarrow> None)"

text \<open>
  Event registrations of OpenLayers, in the release whose module layout the imports of
  lines 4 to 6 name (\<open>ol/index.js\<close> exporting \<open>inherits\<close>, \<open>ol/Observable.js\<close>,
  \<open>ol/style/Icon.js\<close>). There \<open>target.on(type, listener)\<close> has two parameters and returns a
  key object, modelled as a fresh opaque token; a listener is called with the event target
  as \<open>this\<close>. The only listeners are the two handler functions of the herald's prototype.
\<close>

datatype target = GeometryTarget ref | FeatureTarget

datatype handler = GeometryChangeHandler | GeometryReplaceHandler

text \<open>The object that \<open>this\<close> stands for when a function of the prototype runs.\<close>

datatype receiver = HeraldObject | TargetObject target

record events_key =
  key_id :: ref
  target :: target
  type' :: string
  listener :: handler

subsection \<open>Google Maps side\<close>

datatype latlng = LatLng int int

type_synonym gm_geometry = "latlng list"

type_synonym gm_style = "(string \<times> string) list"

record gm_feature =
  feature_id :: ref
  feature_geometry :: "gm_geometry option"

record map_icon =
  icon_id :: ref
  icon_image :: ol_image
  icon_position :: latlng
  icon_zIndex :: int

record map_label =
  label_id :: ref
  label_text :: ol_text
  label_position :: latlng
  label_zIndex :: int

text \<open>
  The calls that reach the data layer \<open>this.data_\<close>, with the argument as it was passed:
  \<open>None\<close> is the null reference.
\<close>

datatype data_call =
  DataAdd "ref option"
  | DataRemove "ref option"
  | DataOverrideStyle "ref option" gm_style

subsection \<open>The world and the herald object\<close>

record world =
  next_ref :: ref
  feature :: ol_feature
  listeners :: "events_key list"
  data_features :: "ref set"
  data_calls :: "data_call list"
  gmap_overlays :: "ref set"

record map_icon_options =
  useCanvas :: "bool option"

text \<open>
  The fields of the herald. \<open>feature_\<close>, \<open>data_\<close> and \<open>gmap\<close> are fixed references to the
  feature, the data layer and the map of the world and are not repeated here.
  \<open>listenerKeys\<close> and \<open>active\<close> belong to the base class. A private member \<open>name_\<close>
  of the source is written \<open>name'\<close>.
\<close>

record bridge =
  index' :: int
  mapIconOptions' :: map_icon_options
  visible' :: bool
  gmapFeature' :: "gm_feature option"
  label' :: "map_label option"
  marker' :: "map_icon option"
  geometryChangeKey' :: "ref option"
  listenerKeys :: "ref list"
  active :: bool

type_synonym state = "bridge \<times> world"

datatype error = PreconditionError | TypeError

text \<open>
  The factory functions that feature.js imports from \<open>../gm.js\<close> and \<open>../util.js\<close> and that
  only compute a value. Their definitions are not part of the file, so they are parameters
  of the model.
\<close>

record factories =
  createFeatureGeometry :: "ol_geometry \<Rightarrow> gm_geometry"
  getCenterOf :: "ol_geometry \<Rightarrow> coordinate"
  createLatLng :: "coordinate \<Rightarrow> latlng"
  createStyle :: "ol_feature \<Rightarrow> map_icon_options \<Rightarrow> int \<Rightarrow> gm_style option"
  getStyleOf :: "ol_feature \<Rightarrow> ol_style option"

subsection \<open>Collaborators\<close>

text \<open>
  \<open>target.on(type, listener, this)\<close> as the source calls it. The third argument is not a
  parameter of \<open>on\<close> and is dropped: the registration does not record it.
\<close>

definition on :: "target \<Rightarrow> string \<Rightarrow> handler \<Rightarrow> receiver \<Rightarrow> world \<Rightarrow> ref \<times> world" where
  "on t ty h this w =
     (next_ref w,
      w\<lparr>listeners := listeners w @ [\<lparr>key_id = next_ref w, target = t, type' = ty, listener = h\<rparr>],
        next_ref := Suc (next_ref w)\<rparr>)"

text \<open>
  The function \<open>unByKey\<close> that \<open>ol/Observable.js\<close> exports by name takes the registration
  with the given key away; for a value that is no key (\<open>undefined\<close>) it does nothing.
\<close>

definition unByKey :: "ref option \<Rightarrow> world \<Rightarrow> world" where
  "unByKey k w =
     (case k of
        None \<Rightarrow> w
      | Some k' \<Rightarrow> w\<lparr>listeners := filter (\<lambda>l. key_id l \<noteq> k') (listeners w)\<rparr>)"

text \<open>
  Line 246 calls \<open>Observable.unByKey(...)\<close>, where \<open>Observable\<close> is the default export of
  \<open>ol/Observable.js\<close> (line 5), the class. \<open>unByKey\<close> is exported by name from that module
  and is not a property of the class, so \<open>Observable.unByKey\<close> is \<open>undefined\<close> and calling it
  is a \<open>TypeError\<close>; no registration is taken away.
\<close>

definition Observable_unByKey :: "ref option \<Rightarrow> world \<Rightarrow> error + world" where
  "Observable_unByKey k w = Inl TypeError"

text \<open>
  \<open>Array.prototype.indexOf\<close> and \<open>keys.splice(index, 1)\<close>. A missing element has index
  \<open>-1\<close>, and a negative start counts from the end of the array, so \<open>splice(-1, 1)\<close>
  removes the last element.
\<close>

fun indexOf_from :: "int \<Rightarrow> 'a \<Rightarrow> 'a list \<Rightarrow> int" where
  "indexOf_from i x [] = - 1"
| "indexOf_from i x (y # ys) = (if x = y then i else indexOf_from (i + 1) x ys)"

definition indexOf :: "'a option \<Rightarrow> 'a list \<Rightarrow> int" where
  "indexOf x xs = (case x of None \<Rightarrow> - 1 | Some x' \<Rightarrow> indexOf_from 0 x' xs)"

definition splice1 :: "int \<Rightarrow> 'a list \<Rightarrow> 'a list" where
  "splice1 i xs =
     (let n = int (length xs);
          start = (if i < 0 then max (n + i) 0 else min i n)
      in take (nat start) xs @ drop (Suc (nat start)) xs)"

text \<open>
  The data layer \<open>this.data_\<close> is a \<open>google.maps.Data\<close> object, outside the repository.
  The spec describes it as the mirror engine's feature collection, and each of its three
  methods is modelled from that. Every call is recorded with its argument; a call with the
  null reference leaves the collection as it is.
\<close>

text \<open>Modelled from the spec: \<open>data.add(feature)\<close> inserts the mirror feature into the collection.\<close>

definition data_add :: "gm_feature option \<Rightarrow> world \<Rightarrow> world" where
  "data_add f w =
     w\<lparr>data_features :=
         (case f of None \<Rightarrow> data_features w | Some g \<Rightarrow> insert (feature_id g) (data_features w)),
       data_calls := data_calls w @ [DataAdd (map_option feature_id f)]\<rparr>"

text \<open>Modelled from the spec: \<open>data.remove(feature)\<close> takes the mirror feature out of the collection.\<close>

definition data_remove :: "gm_feature option \<Rightarrow> world \<Rightarrow> world" where
  "data_remove f w =
     w\<lparr>data_features :=
         (case f of None \<Rightarrow> data_features w | Some g \<Rightarrow> data_features w - {feature_id g}),
       data_calls := data_calls w @ [DataRemove (map_option feature_id f)]\<rparr>"

text \<open>
  Modelled from the spec: \<open>data.overrideStyle(feature, style)\<close> applies the style override to
  one mirror feature; membership in the collection is not affected.
\<close>

definition data_overrideStyle :: "gm_feature option \<Rightarrow> gm_style \<Rightarrow> world \<Rightarrow> world" where
  "data_overrideStyle f st w =
     w\<lparr>data_calls := data_calls w @ [DataOverrideStyle (map_option feature_id f) st]\<rparr>"

text \<open>
  Modelled from the spec: the overlay classes (\<open>olgm/gm/MapIcon\<close>, \<open>olgm/gm/MapLabel\<close>) are
  missing. An overlay is attached to the map surface by \<open>setMap(this.gmap)\<close> and detached
  by \<open>setMap(null)\<close>; \<open>gmap_overlays\<close> holds the overlays that are attached.
\<close>

definition setMap :: "ref \<Rightarrow> bool \<Rightarrow> world \<Rightarrow> world" where
  "setMap r attach w =
     w\<lparr>gmap_overlays := (if attach then insert r (gmap_overlays w) else gmap_overlays w - {r})\<rparr>"

text \<open>
  Modelled from the spec: \<open>createFeature\<close> of \<open>../gm.js\<close> is missing. It returns a new mirror
  feature made from the source feature.
\<close>

definition createFeature :: "factories \<Rightarrow> world \<Rightarrow> gm_feature \<times> world" where
  "createFeature F w =
     (\<lparr>feature_id = next_ref w,
       feature_geometry = map_option (createFeatureGeometry F) (getGeometry (feature w))\<rparr>,
      w\<lparr>next_ref := Suc (next_ref w)\<rparr>)"

text \<open>
  Modelled from the spec: \<open>createMapIcon\<close> of \<open>../gm.js\<close> is missing. It returns a new icon
  marker overlay made from (image, coordinate, draw index), not yet attached to a map.
\<close>

definition createMapIcon :: "ol_image \<Rightarrow> latlng \<Rightarrow> int \<Rightarrow> world \<Rightarrow> map_icon \<times> world" where
  "createMapIcon img latLng index w =
     (\<lparr>icon_id = next_ref w, icon_image = img, icon_position = latLng, icon_zIndex = index\<rparr>,
      w\<lparr>next_ref := Suc (next_ref w)\<rparr>)"

text \<open>
  Modelled from the spec: \<open>createLabel\<close> of \<open>../gm.js\<close> is missing. It returns a new label
  overlay made from (text style, coordinate, draw index), not yet attached to a map.
\<close>

definition createLabel :: "ol_text \<Rightarrow> latlng \<Rightarrow> int \<Rightarrow> world \<Rightarrow> map_label \<times> world" where
  "createLabel txt latLng index w =
     (\<lparr>label_id = next_ref w, label_text = txt, label_position = latLng, label_zIndex = index\<rparr>,
      w\<lparr>next_ref := Suc (next_ref w)\<rparr>)"

text \<open>
  Modelled from the spec: \<open>Herald.prototype.activate\<close> of the base class (\<open>./Herald.js\<close>) is
  missing. It marks the entity active and does nothing if it is active already.
\<close>

definition Herald_activate :: "bridge \<Rightarrow> bridge" where
  "Herald_activate b = b\<lparr>active := True\<rparr>"

text \<open>
  Modelled from the spec: \<open>Herald.prototype.deactivate\<close> of the base class (\<open>./Herald.js\<close>)
  is missing. It marks the entity inactive and clears the registered subscriptions: every
  handle of the list is unsubscribed and the list is left empty.
\<close>

definition Herald_deactivate :: "state \<Rightarrow> state" where
  "Herald_deactivate s =
     (case s of (b, w) \<Rightarrow>
        (b\<lparr>listenerKeys := [], active := False\<rparr>,
         fold (\<lambda>k. unByKey (Some k)) (listenerKeys b) w))"

subsection \<open>The constructor\<close>

text \<open>
  Lines 26 to 60. \<open>options.visible\<close> may be undefined and then defaults to true. The call
  \<open>Herald.call(this, ol3map, gmap)\<close> of the base constructor, modelled from the spec, starts
  with an empty list of listener keys and an inactive entity. The prototype sets
  \<open>gmapFeature_\<close>, \<open>label_\<close> and \<open>marker_\<close> to null; \<open>geometryChangeKey_\<close> is undefined until
  \<open>activate\<close> assigns it.
\<close>

record feature_options =
  opt_index :: int
  opt_mapIconOptions :: map_icon_options
  opt_visible :: "bool option"

definition Feature :: "feature_options \<Rightarrow> bridge" where
  "Feature options =
     \<lparr>index' = opt_index options,
      mapIconOptions' = opt_mapIconOptions options,
      visible' = (case opt_visible options of Some v \<Rightarrow> v | None \<Rightarrow> True),
      gmapFeature' = None,
      label' = None,
      marker' = None,
      geometryChangeKey' = None,
      listenerKeys = [],
      active = False\<rparr>"

subsection \<open>getGeometry'\<close>

text \<open>
  Modelled from the spec: \<open>assert\<close> of \<open>../asserts.js\<close> is missing. An assertion whose
  condition is false raises the precondition error; otherwise nothing happens.
\<close>

definition assert :: "bool \<Rightarrow> error + unit" where
  "assert c = (if c then Inr () else Inl PreconditionError)"

text \<open>
  Lines 212 to 217. The assertion tests \<open>geometry !== undefined\<close>; once it has passed, the
  value is returned as it is, so \<open>null\<close> is returned like a geometry object.
\<close>

definition getGeometry' :: "world \<Rightarrow> error + js_geometry" where
  "getGeometry' w =
     (let geometry = geometry_value (feature w)
      in case assert (geometry \<noteq> Undefined) of
           Inl e \<Rightarrow> Inl e
         | Inr _ \<Rightarrow> Inr geometry)"

subsection \<open>activate\<close>

text \<open>Lines 119 to 127: the icon marker.\<close>

definition activate_marker :: "ol_style \<Rightarrow> latlng \<Rightarrow> int \<Rightarrow> state \<Rightarrow> state" where
  "activate_marker style latLng index s =
     (case s of (b, w) \<Rightarrow>
        (let image = getImage style;
             useCanvas = (case useCanvas (mapIconOptions' b) of Some u \<Rightarrow> u | None \<Rightarrow> False)
         in case image of
              Some (Icon src) \<Rightarrow>
                if useCanvas then
                  (let (m, w1) = createMapIcon (Icon src) latLng index w;
                       b1 = b\<lparr>marker' := Some m\<rparr>
                   in (b1, if visible' b1 then setMap (icon_id m) True w1 else w1))
                else (b, w)
            | _ \<Rightarrow> (b, w)))"

text \<open>Lines 129 to 135: the label.\<close>

definition activate_label :: "ol_style \<Rightarrow> latlng \<Rightarrow> int \<Rightarrow> state \<Rightarrow> state" where
  "activate_label style latLng index s =
     (case s of (b, w) \<Rightarrow>
        (case getText style of
           Some txt \<Rightarrow>
             (let (l, w1) = createLabel txt latLng index w;
                  b1 = b\<lparr>label' := Some l\<rparr>
              in (b1, if visible' b1 then setMap (label_id l) True w1 else w1))
         | None \<Rightarrow> (b, w)))"

text \<open>Lines 112 to 136: the overlays of a feature whose style is defined.\<close>

definition activate_overlays :: "factories \<Rightarrow> ol_geometry \<Rightarrow> state \<Rightarrow> state" where
  "activate_overlays F geometry s =
     (case s of (b, w) \<Rightarrow>
        (let latLng = createLatLng F (getCenterOf F geometry);
             style = getStyleOf F (feature w)
         in case style of
              None \<Rightarrow> (b, w)
            | Some st \<Rightarrow>
                (let zIndex = getZIndex st;
                     index = (case zIndex of Some z \<Rightarrow> z | None \<Rightarrow> index' b)
                 in activate_label st latLng index (activate_marker st latLng index (b, w)))))"

text \<open>Lines 139 to 146: the two subscriptions, pushed on the list of listener keys.\<close>

definition activate_listeners :: "ol_geometry \<Rightarrow> state \<Rightarrow> state" where
  "activate_listeners geometry s =
     (case s of (b, w) \<Rightarrow>
        (let (k1, w1) = on (GeometryTarget (geom_id geometry)) ''change'' GeometryChangeHandler
                          HeraldObject w;
             b1 = b\<lparr>geometryChangeKey' := Some k1\<rparr>;
             b2 = b1\<lparr>listenerKeys := listenerKeys b1 @ [k1]\<rparr>;
             (k2, w2) = on FeatureTarget (''change:'' @ getGeometryName (feature w1))
                          GeometryReplaceHandler HeraldObject w1
         in (b2\<lparr>listenerKeys := listenerKeys b2 @ [k2]\<rparr>, w2)))"

text \<open>Lines 97 to 109: the mirror feature, its place in the data layer and its style.\<close>

definition activate_feature :: "factories \<Rightarrow> state \<Rightarrow> state" where
  "activate_feature F s =
     (case s of (b, w) \<Rightarrow>
        (let (f, w1) = createFeature F w;
             b1 = b\<lparr>gmapFeature' := Some f\<rparr>;
             w2 = (if visible' b1 then data_add (gmapFeature' b1) w1 else w1);
             gmStyle = createStyle F (feature w2) (mapIconOptions' b1) (index' b1);
             w3 = (case gmStyle of
                     Some st \<Rightarrow> data_overrideStyle (gmapFeature' b1) st w2
                   | None \<Rightarrow> w2)
         in (b1, w3)))"

text \<open>
  Lines 91 to 147. When \<open>getGeometry_\<close> has returned \<open>null\<close>, the statements of lines 98
  to 136 are taken to return normally, and line 140 then calls \<open>on\<close> on \<open>null\<close>, a
  \<open>TypeError\<close>. The state reached when an exception is thrown is not kept.
\<close>

definition activate :: "factories \<Rightarrow> state \<Rightarrow> error + state" where
  "activate F s =
     (case s of (b, w) \<Rightarrow>
        (let b0 = Herald_activate b
         in case getGeometry' w of
              Inl e \<Rightarrow> Inl e
            | Inr geometry \<Rightarrow>
                (case geometry of
                   Geometry g \<Rightarrow>
                     Inr (activate_listeners g
                            (activate_overlays F g (activate_feature F (b0, w))))
                 | _ \<Rightarrow> Inl TypeError)))"

subsection \<open>deactivate\<close>

definition deactivate :: "state \<Rightarrow> state" where
  "deactivate s =
     (case s of (b, w) \<Rightarrow>
        (let w1 = data_remove (gmapFeature' b) w;
             b1 = b\<lparr>gmapFeature' := None\<rparr>;
             (b2, w2) = (case marker' b1 of
                           Some m \<Rightarrow> (b1\<lparr>marker' := None\<rparr>, setMap (icon_id m) False w1)
                         | None \<Rightarrow> (b1, w1));
             (b3, w3) = (case label' b2 of
                           Some l \<Rightarrow> (b2\<lparr>label' := None\<rparr>, setMap (label_id l) False w2)
                         | None \<Rightarrow> (b2, w2))
         in Herald_deactivate (b3, w3)))"

subsection \<open>setVisible\<close>

definition setVisible :: "bool \<Rightarrow> state \<Rightarrow> state" where
  "setVisible value s =
     (case s of (b, w) \<Rightarrow>
        if value \<and> \<not> visible' b then
          (let w1 = data_add (gmapFeature' b) w;
               w2 = (case marker' b of Some m \<Rightarrow> setMap (icon_id m) True w1 | None \<Rightarrow> w1);
               w3 = (case label' b of Some l \<Rightarrow> setMap (label_id l) True w2 | None \<Rightarrow> w2)
           in (b\<lparr>visible' := True\<rparr>, w3))
        else if \<not> value \<and> visible' b then
          (let w1 = data_remove (gmapFeature' b) w;
               w2 = (case marker' b of Some m \<Rightarrow> setMap (icon_id m) False w1 | None \<Rightarrow> w1);
               w3 = (case label' b of Some l \<Rightarrow> setMap (label_id l) False w2 | None \<Rightarrow> w2)
           in (b\<lparr>visible' := False\<rparr>, w3))
        else (b, w))"

subsection \<open>The two handlers\<close>

text \<open>
  Lines 223 to 238, run as a method of the herald. \<open>this.gmapFeature_.setGeometry(...)\<close> on
  the null reference is a \<open>TypeError\<close>. The value factories are defined on geometry objects;
  applying them to \<open>null\<close> is taken to be a \<open>TypeError\<close> as well. The state reached when an
  exception is thrown is not kept.
\<close>

definition handleGeometryChange' :: "factories \<Rightarrow> state \<Rightarrow> error + state" where
  "handleGeometryChange' F s =
     (case s of (b, w) \<Rightarrow>
        (case getGeometry' w of
           Inl e \<Rightarrow> Inl e
         | Inr (Geometry geometry) \<Rightarrow>
             (case gmapFeature' b of
                None \<Rightarrow> Inl TypeError
              | Some f \<Rightarrow>
                  (let b1 = b\<lparr>gmapFeature' :=
                               Some (f\<lparr>feature_geometry := Some (createFeatureGeometry F geometry)\<rparr>)\<rparr>;
                       b2 = (case label' b1 of
                               Some l \<Rightarrow>
                                 b1\<lparr>label' :=
                                      Some (l\<lparr>label_position :=
                                                createLatLng F (getCenterOf F geometry)\<rparr>)\<rparr>
                             | None \<Rightarrow> b1);
                       b3 = (case marker' b2 of
                               Some m \<Rightarrow>
                                 b2\<lparr>marker' :=
                                      Some (m\<lparr>icon_position :=
                                                createLatLng F (getCenterOf F geometry)\<rparr>)\<rparr>
                             | None \<Rightarrow> b2)
                   in Inr (b3, w)))
         | Inr _ \<Rightarrow> Inl TypeError))"

text \<open>
  Lines 244 to 255, run as a method of the herald. The call of line 246 raises, so the
  statements after it are not reached; they are kept as the source has them.
  \<open>this.feature_.getGeometry().on(...)\<close> is a \<open>TypeError\<close> when the value is \<open>undefined\<close> or
  \<open>null\<close>.
\<close>

definition handleGeometryReplace' :: "factories \<Rightarrow> state \<Rightarrow> error + state" where
  "handleGeometryReplace' F s =
     (case s of (b, w) \<Rightarrow>
        (let keys = listenerKeys b
         in case Observable_unByKey (geometryChangeKey' b) w of
              Inl e \<Rightarrow> Inl e
            | Inr w1 \<Rightarrow>
                (let index = indexOf (geometryChangeKey' b) keys;
                     keys1 = splice1 index keys
                 in case geometry_value (feature w1) of
                      Geometry g \<Rightarrow>
                        (let (k, w2) = on (GeometryTarget (geom_id g)) ''change''
                                         GeometryChangeHandler HeraldObject w1;
                             b1 = b\<lparr>geometryChangeKey' := Some k, listenerKeys := keys1\<rparr>;
                             b2 = b1\<lparr>listenerKeys := listenerKeys b1 @ [k]\<rparr>
                         in handleGeometryChange' F (b2, w2))
                    | _ \<Rightarrow> Inl TypeError)))"

subsection \<open>Delivery of events\<close>

text \<open>
  A listener is one of the two functions of the prototype, and it runs with the object that
  \<open>this\<close> is bound to. With the herald as \<open>this\<close> it is the method above. With an OpenLayers
  object as \<open>this\<close>, \<open>handleGeometryChange_\<close> starts with \<open>this.getGeometry_()\<close> (line 224),
  a function that object does not have, and \<open>handleGeometryReplace_\<close> reaches the call of
  line 246: both are \<open>TypeError\<close>s before anything is changed.
\<close>

fun call_handler :: "factories \<Rightarrow> handler \<Rightarrow> receiver \<Rightarrow> state \<Rightarrow> error + state" where
  "call_handler F GeometryChangeHandler HeraldObject s = handleGeometryChange' F s"
| "call_handler F GeometryReplaceHandler HeraldObject s = handleGeometryReplace' F s"
| "call_handler F h (TargetObject t) s = Inl TypeError"

text \<open>
  The source feature is changed from outside the herald. A change of the attached
  geometry's shape notifies the listeners of \<open>change\<close> on that geometry object; giving the
  feature another value for its geometry notifies the listeners of \<open>change:\<close> followed by
  the geometry name on the feature. Notifications are delivered synchronously, to the
  registrations present when the event is raised, each listener being called with the
  event target as \<open>this\<close>, and an exception in a listener ends the delivery.
  \<open>ol_setCoordinates\<close> stands for \<open>geometry.setCoordinates(cs)\<close> on the attached geometry and
  \<open>ol_setGeometry\<close> for \<open>feature.setGeometry(g)\<close> of OpenLayers, which notifies only when
  the value is another object than before.
\<close>

fun call_listeners :: "factories \<Rightarrow> events_key list \<Rightarrow> state \<Rightarrow> error + state" where
  "call_listeners F [] s = Inr s"
| "call_listeners F (l # ls) s =
     (case call_handler F (listener l) (TargetObject (target l)) s of
        Inl e \<Rightarrow> Inl e
      | Inr s' \<Rightarrow> call_listeners F ls s')"

definition dispatchEvent :: "factories \<Rightarrow> target \<Rightarrow> string \<Rightarrow> state \<Rightarrow> error + state" where
  "dispatchEvent F t ty s =
     call_listeners F (filter (\<lambda>l. target l = t \<and> type' l = ty) (listeners (snd s))) s"

definition ol_setCoordinates :: "factories \<Rightarrow> coordinate list \<Rightarrow> state \<Rightarrow> error + state" where
  "ol_setCoordinates F cs s =
     (case s of (b, w) \<Rightarrow>
        (case geometry_value (feature w) of
           Geometry g \<Rightarrow>
             dispatchEvent F (GeometryTarget (geom_id g)) ''change''
               (b, w\<lparr>feature := (feature w)\<lparr>geometry_value := Geometry (g\<lparr>coordinates := cs\<rparr>)\<rparr>\<rparr>)
         | _ \<Rightarrow> Inr (b, w)))"

text \<open>The identity of a value: \<open>undefined\<close>, \<open>null\<close>, or the reference of the geometry object.\<close>

fun same_value :: "js_geometry \<Rightarrow> js_geometry \<Rightarrow> bool" where
  "same_value Undefined Undefined = True"
| "same_value Null Null = True"
| "same_value (Geometry g) (Geometry h) = (geom_id g = geom_id h)"
| "same_value _ _ = False"

definition ol_setGeometry :: "factories \<Rightarrow> js_geometry \<Rightarrow> state \<Rightarrow> error + state" where
  "ol_setGeometry F g s =
     (case s of (b, w) \<Rightarrow>
        (let w1 = w\<lparr>feature := (feature w)\<lparr>geometry_value := g\<rparr>\<rparr>
         in if \<not> same_value (geometry_value (feature w)) g
            then dispatchEvent F FeatureTarget (''change:'' @ getGeometryName (feature w1)) (b, w1)
            else Inr (b, w1)))"

subsection \<open>Active states\<close>

text \<open>
  The two registrations that \<open>activate\<close> makes: the geometry-change handler on the geometry
  object, and the geometry-replace handler on the feature.
\<close>

definition change_key :: "ref \<Rightarrow> ol_geometry \<Rightarrow> events_key" where
  "change_key k g =
     \<lparr>key_id = k, target = GeometryTarget (geom_id g), type' = ''change'',
      listener = GeometryChangeHandler\<rparr>"

definition replace_key :: "ref \<Rightarrow> ol_feature \<Rightarrow> events_key" where
  "replace_key k ft =
     \<lparr>key_id = k, target = FeatureTarget, type' = ''change:'' @ getGeometryName ft,
      listener = GeometryReplaceHandler\<rparr>"

text \<open>
  The state of an active bridge, as \<open>activate\<close> on an idle bridge leaves it and as
  \<open>setVisible\<close> and the geometry-change handler keep it: the base class is marked active, the mirror
  feature exists, the source feature has a geometry, and the registry holds exactly the keys
  of the two live registrations, the geometry-change one being on the geometry object that
  is attached to the feature now.
\<close>

definition active_state :: "state \<Rightarrow> bool" where
  "active_state s =
     (case s of (b, w) \<Rightarrow>
        active b \<and> gmapFeature' b \<noteq> None \<and>
        (case getGeometry (feature w) of
           None \<Rightarrow> False
         | Some g \<Rightarrow>
             (case geometryChangeKey' b of
                None \<Rightarrow> False
              | Some k \<Rightarrow>
                  listenerKeys b = map key_id (listeners w) \<and> k < next_ref w \<and>
                  (\<exists>kr \<in> set (listenerKeys b). kr \<noteq> k \<and> kr < next_ref w \<and>
                     (listeners w = [change_key k g, replace_key kr (feature w)] \<or>
                      listeners w = [replace_key kr (feature w), change_key k g])))))"

text \<open>An idle bridge: no key is registered and nothing listens.\<close>

definition idle_state :: "state \<Rightarrow> bool" where
  "idle_state s = (case s of (b, w) \<Rightarrow> listenerKeys b = [] \<and> listeners w = [])"

subsection \<open>Sample values\<close>

definition sample_factories :: factories where
  "sample_factories =
     \<lparr>createFeatureGeometry = (\<lambda>g. map (\<lambda>(x, y). LatLng x y) (coordinates g)),
      getCenterOf = (\<lambda>g. case coordinates g of [] \<Rightarrow> (0, 0) | c # _ \<Rightarrow> c),
      createLatLng = (\<lambda>(x, y). LatLng x y),
      createStyle = (\<lambda>ft opts i. None),
      getStyleOf = getStyle\<rparr>"

definition sample_style :: ol_style where
  "sample_style = \<lparr>getZIndex = Some 7, getImage = Some (Icon ''pin.png''), getText = Some (Text ''A'')\<rparr>"

definition sample_world :: world where
  "sample_world =
     \<lparr>next_ref = 10,
      feature = \<lparr>geometry_value = Geometry \<lparr>geom_id = 1, coordinates = [(1, 1)]\<rparr>,
                 getGeometryName = ''geometry'', getStyle = Some sample_style\<rparr>,
      listeners = [], data_features = {}, data_calls = [], gmap_overlays = {}\<rparr>"

definition sample_bridge :: bridge where
  "sample_bridge =
     Feature \<lparr>opt_index = 3, opt_mapIconOptions = \<lparr>useCanvas = Some True\<rparr>, opt_visible = None\<rparr>"

text \<open>The state that \<open>activate\<close> reaches from the sample bridge in the sample world.\<close>

definition sample_active_bridge :: bridge where
  "sample_active_bridge =
     \<lparr>index' = 3, mapIconOptions' = \<lparr>useCanvas = Some True\<rparr>, visible' = True,
      gmapFeature' = Some \<lparr>feature_id = 10, feature_geometry = Some [LatLng 1 1]\<rparr>,
      label' = Some \<lparr>label_id = 12, label_text = Text ''A'', label_position = LatLng 1 1,
                     label_zIndex = 7\<rparr>,
      marker' = Some \<lparr>icon_id = 11, icon_image = Icon ''pin.png'', icon_position = LatLng 1 1,
                      icon_zIndex = 7\<rparr>,
      geometryChangeKey' = Some 13, listenerKeys = [13, 14], active = True\<rparr>"

definition sample_active_world :: world where
  "sample_active_world =
     \<lparr>next_ref = 15,
      feature = \<lparr>geometry_value = Geometry \<lparr>geom_id = 1, coordinates = [(1, 1)]\<rparr>,
                 getGeometryName = ''geometry'', getStyle = Some sample_style\<rparr>,
      listeners =
        [\<lparr>key_id = 13, target = GeometryTarget 1, type' = ''change'',
          listener = GeometryChangeHandler\<rparr>,
         \<lparr>key_id = 14, target = FeatureTarget, type' = ''change:geometry'',
          listener = GeometryReplaceHandler\<rparr>],
      data_features = {10}, data_calls = [DataAdd (Some 10)], gmap_overlays = {12, 11}\<rparr>"


section \<open>Properties\<close>

subsection \<open>What each method computes\<close>

lemma fold_unByKey_eq:
  "fold (\<lambda>k. unByKey (Some k)) ks w = w\<lparr>listeners := filter (\<lambda>l. key_id l \<notin> set ks) (listeners w)\<rparr>"
  by (induction ks arbitrary: w) (auto simp: unByKey_def intro: filter_cong)

lemma deactivate_eq:
  "deactivate (b, w) =
     (b\<lparr>gmapFeature' := None, marker' := None, label' := None, listenerKeys := [], active := False\<rparr>,
      w\<lparr>listeners := filter (\<lambda>l. key_id l \<notin> set (listenerKeys b)) (listeners w),
        data_features := (case gmapFeature' b of None \<Rightarrow> data_features w
                          | Some f \<Rightarrow> data_features w - {feature_id f}),
        data_calls := data_calls w @ [DataRemove (map_option feature_id (gmapFeature' b))],
        gmap_overlays := gmap_overlays w
           - (case marker' b of None \<Rightarrow> {} | Some m \<Rightarrow> {icon_id m})
           - (case label' b of None \<Rightarrow> {} | Some l \<Rightarrow> {label_id l})\<rparr>)"
  by (auto simp: deactivate_def Herald_deactivate_def fold_unByKey_eq data_remove_def setMap_def
      split: option.splits)

lemma getGeometry_SomeD: "getGeometry ft = Some g \<Longrightarrow> geometry_value ft = Geometry g"
  by (simp add: getGeometry_def split: js_geometry.splits)

lemma getGeometry_NoneD:
  "getGeometry ft = None \<Longrightarrow> geometry_value ft = Undefined \<or> geometry_value ft = Null"
  by (simp add: getGeometry_def split: js_geometry.splits)

lemma getGeometry'_eq:
  "getGeometry' w =
     (case geometry_value (feature w) of Undefined \<Rightarrow> Inl PreconditionError | v \<Rightarrow> Inr v)"
  by (simp add: getGeometry'_def assert_def split: js_geometry.splits)

lemma activate_marker_eq:
  "activate_marker st latLng index (b, w) =
     (if (\<exists>src. getImage st = Some (Icon src)) \<and> useCanvas (mapIconOptions' b) = Some True
      then (b\<lparr>marker' := Some \<lparr>icon_id = next_ref w, icon_image = the (getImage st),
                                icon_position = latLng, icon_zIndex = index\<rparr>\<rparr>,
            w\<lparr>next_ref := Suc (next_ref w),
              gmap_overlays := (if visible' b then insert (next_ref w) (gmap_overlays w)
                                else gmap_overlays w)\<rparr>)
      else (b, w))"
  by (auto simp: activate_marker_def createMapIcon_def setMap_def Let_def
      split: option.splits ol_image.splits)

lemma activate_label_eq:
  "activate_label st latLng index (b, w) =
     (case getText st of
        Some txt \<Rightarrow>
          (b\<lparr>label' := Some \<lparr>label_id = next_ref w, label_text = txt,
                              label_position = latLng, label_zIndex = index\<rparr>\<rparr>,
           w\<lparr>next_ref := Suc (next_ref w),
             gmap_overlays := (if visible' b then insert (next_ref w) (gmap_overlays w)
                               else gmap_overlays w)\<rparr>)
      | None \<Rightarrow> (b, w))"
  by (auto simp: activate_label_def createLabel_def setMap_def Let_def split: option.splits)

lemma activate_listeners_eq:
  "activate_listeners g (b, w) =
     (b\<lparr>geometryChangeKey' := Some (next_ref w),
        listenerKeys := listenerKeys b @ [next_ref w, Suc (next_ref w)]\<rparr>,
      w\<lparr>listeners := listeners w @ [change_key (next_ref w) g, replace_key (Suc (next_ref w)) (feature w)],
        next_ref := Suc (Suc (next_ref w))\<rparr>)"
  by (simp add: activate_listeners_def on_def change_key_def replace_key_def)

lemma activate_overlays_eq:
  "activate_overlays F g (b, w) =
     (case getStyleOf F (feature w) of
        None \<Rightarrow> (b, w)
      | Some st \<Rightarrow>
          activate_label st (createLatLng F (getCenterOf F g))
            (case getZIndex st of Some z \<Rightarrow> z | None \<Rightarrow> index' b)
            (activate_marker st (createLatLng F (getCenterOf F g))
               (case getZIndex st of Some z \<Rightarrow> z | None \<Rightarrow> index' b) (b, w)))"
  by (simp add: activate_overlays_def Let_def split: option.splits)

lemma activate_feature_eq:
  "activate_feature F (b, w) =
     (b\<lparr>gmapFeature' := Some \<lparr>feature_id = next_ref w,
            feature_geometry = map_option (createFeatureGeometry F) (getGeometry (feature w))\<rparr>\<rparr>,
      w\<lparr>next_ref := Suc (next_ref w),
        data_features := (if visible' b then insert (next_ref w) (data_features w)
                          else data_features w),
        data_calls := data_calls w
          @ (if visible' b then [DataAdd (Some (next_ref w))] else [])
          @ (case createStyle F (feature w) (mapIconOptions' b) (index' b) of
               None \<Rightarrow> []
             | Some st \<Rightarrow> [DataOverrideStyle (Some (next_ref w)) st])\<rparr>)"
  by (simp add: activate_feature_def createFeature_def data_add_def data_overrideStyle_def
      Let_def split: option.splits)

lemma activate_eq:
  "activate F (b, w) =
     (case geometry_value (feature w) of
        Undefined \<Rightarrow> Inl PreconditionError
      | Null \<Rightarrow> Inl TypeError
      | Geometry g \<Rightarrow>
          Inr (activate_listeners g
                 (activate_overlays F g (activate_feature F (b\<lparr>active := True\<rparr>, w)))))"
  by (simp add: activate_def getGeometry'_eq Herald_activate_def split: js_geometry.splits)

lemma activate_Some:
  assumes "getGeometry (feature w) = Some g"
  shows "activate F (b, w) =
     Inr (activate_listeners g
            (activate_overlays F g (activate_feature F (b\<lparr>active := True\<rparr>, w))))"
  using getGeometry_SomeD [OF assms] by (simp add: activate_eq)

lemma activate_None:
  assumes "getGeometry (feature w) = None"
  shows "\<exists>e. activate F (b, w) = Inl e"
  using getGeometry_NoneD [OF assms] by (auto simp: activate_eq)

lemma activate_overlays_frame:
  assumes "activate_overlays F g (b, w) = (b1, w1)"
  shows "index' b1 = index' b" "mapIconOptions' b1 = mapIconOptions' b" "visible' b1 = visible' b"
    "gmapFeature' b1 = gmapFeature' b" "geometryChangeKey' b1 = geometryChangeKey' b"
    "listenerKeys b1 = listenerKeys b" "active b1 = active b"
    "feature w1 = feature w" "listeners w1 = listeners w" "data_features w1 = data_features w"
    "data_calls w1 = data_calls w" "next_ref w \<le> next_ref w1"
  using assms
  by (auto simp: activate_overlays_eq activate_marker_eq activate_label_eq
      split: option.splits if_splits)

lemma activate_with_style:
  assumes "getGeometry (feature w) = Some g" and "getStyleOf F (feature w) = Some st"
    and "icon \<longleftrightarrow> (\<exists>src. getImage st = Some (Icon src)) \<and> useCanvas (mapIconOptions' b) = Some True"
  shows "\<exists>b1 w1. activate F (b, w) = Inr (b1, w1) \<and>
           marker' b1 =
             (if icon
              then Some \<lparr>icon_id = Suc (next_ref w), icon_image = the (getImage st),
                         icon_position = createLatLng F (getCenterOf F g),
                         icon_zIndex = (case getZIndex st of Some z \<Rightarrow> z | None \<Rightarrow> index' b)\<rparr>
              else marker' b) \<and>
           label' b1 =
             (case getText st of
                Some txt \<Rightarrow>
                  Some \<lparr>label_id = (if icon then Suc (Suc (next_ref w)) else Suc (next_ref w)),
                        label_text = txt,
                        label_position = createLatLng F (getCenterOf F g),
                        label_zIndex = (case getZIndex st of Some z \<Rightarrow> z | None \<Rightarrow> index' b)\<rparr>
              | None \<Rightarrow> label' b) \<and>
           next_ref w1 =
             next_ref w + 3 + (if icon then 1 else 0) + (if getText st = None then 0 else 1)"
proof -
  obtain b0 w0 where f: "activate_feature F (b\<lparr>active := True\<rparr>, w) = (b0, w0)"
    by (meson surj_pair)
  have b0: "mapIconOptions' b0 = mapIconOptions' b" "index' b0 = index' b"
    "marker' b0 = marker' b" "label' b0 = label' b"
    and w0: "feature w0 = feature w" "next_ref w0 = Suc (next_ref w)"
    using f by (auto simp: activate_feature_eq)
  have m: "activate_marker st latLng index (b0, w0) =
     (if icon
      then (b0\<lparr>marker' := Some \<lparr>icon_id = next_ref w0, icon_image = the (getImage st),
                                 icon_position = latLng, icon_zIndex = index\<rparr>\<rparr>,
            w0\<lparr>next_ref := Suc (next_ref w0),
               gmap_overlays := (if visible' b0 then insert (next_ref w0) (gmap_overlays w0)
                                 else gmap_overlays w0)\<rparr>)
      else (b0, w0))" for latLng index
    unfolding assms(3) b0(1)[symmetric] by (rule activate_marker_eq)
  show ?thesis
    using assms(1,2) b0 w0
    by (cases icon; cases "getText st")
      (simp_all add: activate_Some [OF assms(1)] f activate_overlays_eq m activate_label_eq
        activate_listeners_eq cong: option.case_cong)
qed

lemma handleGeometryChange'_eq:
  "handleGeometryChange' F (b, w) =
     (case geometry_value (feature w) of
        Undefined \<Rightarrow> Inl PreconditionError
      | Null \<Rightarrow> Inl TypeError
      | Geometry g \<Rightarrow>
          (case gmapFeature' b of
             None \<Rightarrow> Inl TypeError
           | Some f \<Rightarrow>
               Inr (b\<lparr>gmapFeature' := Some (f\<lparr>feature_geometry := Some (createFeatureGeometry F g)\<rparr>),
                      label' := map_option
                         (\<lambda>l. l\<lparr>label_position := createLatLng F (getCenterOf F g)\<rparr>) (label' b),
                      marker' := map_option
                         (\<lambda>m. m\<lparr>icon_position := createLatLng F (getCenterOf F g)\<rparr>) (marker' b)\<rparr>,
                    w)))"
  by (auto simp: handleGeometryChange'_def getGeometry'_eq Let_def
      split: option.splits js_geometry.splits)

lemma handleGeometryChange'_Some:
  assumes "getGeometry (feature w) = Some g" and "gmapFeature' b = Some f"
  shows "handleGeometryChange' F (b, w) =
     Inr (b\<lparr>gmapFeature' := Some (f\<lparr>feature_geometry := Some (createFeatureGeometry F g)\<rparr>),
            label' := map_option
               (\<lambda>l. l\<lparr>label_position := createLatLng F (getCenterOf F g)\<rparr>) (label' b),
            marker' := map_option
               (\<lambda>m. m\<lparr>icon_position := createLatLng F (getCenterOf F g)\<rparr>) (marker' b)\<rparr>,
          w)"
  using getGeometry_SomeD [OF assms(1)] assms(2) by (simp add: handleGeometryChange'_eq)

lemma setVisible_flag: "visible' (fst (setVisible v s)) = v"
  by (cases s) (auto simp: setVisible_def Let_def)

lemma insert_Diff_two: "insert a (insert b (S - {b} - {a})) = insert a (insert b S)"
  by auto

subsection \<open>Removing a key from the list of listener keys\<close>

lemma indexOf_from_member:
  "x \<in> set xs \<Longrightarrow> 0 \<le> i \<Longrightarrow>
   \<exists>j < length xs. indexOf_from i x xs = i + int j \<and>
      take j xs @ drop (Suc j) xs = remove1 x xs"
proof (induction xs arbitrary: i)
  case Nil
  then show ?case by simp
next
  case (Cons y ys)
  show ?case
  proof (cases "x = y")
    case True
    then show ?thesis by (intro exI [of _ 0]) simp
  next
    case False
    with Cons.prems have "x \<in> set ys" "0 \<le> i + 1" by auto
    from Cons.IH [OF this] obtain j where
      j: "j < length ys" "indexOf_from (i + 1) x ys = i + 1 + int j"
         "take j ys @ drop (Suc j) ys = remove1 x ys"
      by blast
    show ?thesis
      using False j by (intro exI [of _ "Suc j"]) simp
  qed
qed

lemma splice1_indexOf:
  assumes "x \<in> set xs"
  shows "splice1 (indexOf (Some x) xs) xs = remove1 x xs"
proof -
  from indexOf_from_member [OF assms, of 0] obtain j where
    j: "j < length xs" "indexOf_from 0 x xs = int j" "take j xs @ drop (Suc j) xs = remove1 x xs"
    by auto
  show ?thesis
    using j by (simp add: splice1_def indexOf_def Let_def min_def)
qed

subsection \<open>Active states\<close>

text \<open>
  Activation of an idle bridge reaches an active state, and visibility changes and the
  geometry-change handler stay among the active states.
\<close>

lemma active_state_cases:
  assumes "active_state (b, w)"
  obtains g k kr f where
    "getGeometry (feature w) = Some g" "geometryChangeKey' b = Some k" "gmapFeature' b = Some f"
    "active b" "k < next_ref w" "kr < next_ref w" "kr \<noteq> k"
    "listeners w = [change_key k g, replace_key kr (feature w)] \<and> listenerKeys b = [k, kr] \<or>
     listeners w = [replace_key kr (feature w), change_key k g] \<and> listenerKeys b = [kr, k]"
proof -
  from assms obtain g k f where
    a: "getGeometry (feature w) = Some g" "geometryChangeKey' b = Some k" "gmapFeature' b = Some f"
      "active b" "k < next_ref w" "listenerKeys b = map key_id (listeners w)"
    and e: "\<exists>kr \<in> set (listenerKeys b). kr \<noteq> k \<and> kr < next_ref w \<and>
       (listeners w = [change_key k g, replace_key kr (feature w)] \<or>
        listeners w = [replace_key kr (feature w), change_key k g])"
    by (auto simp: active_state_def split: option.splits)
  from e obtain kr where
    k: "kr \<noteq> k" "kr < next_ref w"
      "listeners w = [change_key k g, replace_key kr (feature w)] \<or>
       listeners w = [replace_key kr (feature w), change_key k g]"
    by blast
  from k(3) a(6) have
    "listeners w = [change_key k g, replace_key kr (feature w)] \<and> listenerKeys b = [k, kr] \<or>
     listeners w = [replace_key kr (feature w), change_key k g] \<and> listenerKeys b = [kr, k]"
    by (auto simp: change_key_def replace_key_def)
  with a k that show thesis by blast
qed

lemma activate_active_state:
  assumes "idle_state (b, w)" and "getGeometry (feature w) = Some g"
  shows "\<exists>s. activate F (b, w) = Inr s \<and> active_state s"
proof -
  obtain b0 w0 where ov:
    "activate_overlays F g (activate_feature F (b\<lparr>active := True\<rparr>, w)) = (b0, w0)"
    by (meson surj_pair)
  note fr = activate_overlays_frame [OF ov [unfolded activate_feature_eq]]
  have "active_state (activate_listeners g (b0, w0))"
    using assms fr
    by (simp add: activate_listeners_eq active_state_def idle_state_def change_key_def
        replace_key_def)
  then show ?thesis
    using ov by (simp add: activate_Some [OF assms(2)])
qed

lemma active_state_setVisible:
  assumes "active_state s"
  shows "active_state (setVisible v s)"
  using assms
  by (cases s)
    (auto simp: active_state_def setVisible_def data_add_def data_remove_def setMap_def Let_def
      split: option.splits)

lemma active_state_change:
  assumes "active_state (b, w)" and "handleGeometryChange' F (b, w) = Inr (b1, w1)"
  shows "active_state (b1, w1)"
proof -
  obtain g f where gf: "getGeometry (feature w) = Some g" "gmapFeature' b = Some f"
    using assms(1) by (auto simp: active_state_def split: option.splits)
  show ?thesis
    using assms gf unfolding handleGeometryChange'_Some [OF gf]
    by (auto simp: active_state_def split: option.splits)
qed

subsection \<open>Delivery of events to the handlers\<close>

text \<open>
  The geometry-replace handler raises at line 246 in every state. A notification with at
  least one listener raises as well, since the listener runs with the event target as
  \<open>this\<close>; in an active state both notifications have a listener.
\<close>

lemma handleGeometryReplace'_throws: "handleGeometryReplace' F s = Inl TypeError"
  by (cases s) (simp add: handleGeometryReplace'_def Observable_unByKey_def)

lemma call_listeners_throws: "ls \<noteq> [] \<Longrightarrow> call_listeners F ls s = Inl TypeError"
  by (cases ls) simp_all

lemma ol_setCoordinates_active_throws:
  assumes "active_state (b, w)"
  shows "ol_setCoordinates F cs (b, w) = Inl TypeError"
proof -
  from assms obtain g k kr where
    a: "getGeometry (feature w) = Some g"
      "listeners w = [change_key k g, replace_key kr (feature w)] \<and> listenerKeys b = [k, kr] \<or>
       listeners w = [replace_key kr (feature w), change_key k g] \<and> listenerKeys b = [kr, k]"
    by (rule active_state_cases)
  show ?thesis
    using a(2) getGeometry_SomeD [OF a(1)]
    by (auto simp: ol_setCoordinates_def dispatchEvent_def change_key_def replace_key_def)
qed

lemma ol_setGeometry_active_throws:
  assumes "active_state (b, w)" and "\<not> same_value (geometry_value (feature w)) v"
  shows "ol_setGeometry F v (b, w) = Inl TypeError"
proof -
  from assms(1) obtain g k kr where
    a: "listeners w = [change_key k g, replace_key kr (feature w)] \<and> listenerKeys b = [k, kr] \<or>
       listeners w = [replace_key kr (feature w), change_key k g] \<and> listenerKeys b = [kr, k]"
    by (rule active_state_cases)
  show ?thesis
    using a assms(2)
    by (auto simp: ol_setGeometry_def dispatchEvent_def change_key_def replace_key_def Let_def)
qed

lemma sample_activate:
  "activate sample_factories (sample_bridge, sample_world) =
     Inr (sample_active_bridge, sample_active_world)"
  by (simp add: activate_eq getGeometry_def activate_feature_eq activate_overlays_eq
      activate_marker_eq activate_label_eq activate_listeners_eq sample_factories_def sample_bridge_def
      sample_world_def sample_style_def sample_active_bridge_def sample_active_world_def
      Feature_def change_key_def replace_key_def insert_commute)

lemma sample_active_state: "active_state (sample_active_bridge, sample_active_world)"
  by (simp add: active_state_def getGeometry_def sample_active_bridge_def
      sample_active_world_def change_key_def replace_key_def)

subsection \<open>Replacement of the geometry object\<close>

text \<open>
  C1: the geometry-replace handler is to unsubscribe the old geometry-change key and take
  it out of the list of listener keys, subscribe to the new geometry object, push the new
  key and run the geometry-change handler once, so that a later change of the new geometry
  still updates the mirror feature. The code does not do this. Starting from the active
  sample state, whose geometry object has reference 1, the geometry is replaced by a new
  object with reference 2. The notification calls the handler with the feature as \<open>this\<close>,
  and the handler raises a \<open>TypeError\<close>; run as a method of the herald it raises the same
  error at line 246, before any key is removed or added. In the state this leaves (the
  attribute replaced, bridge and registrations as before) the only geometry-change
  registration is still the old key on the old geometry object, so a change of the new
  geometry's shape notifies nobody and the mirror feature keeps the old shape.
\<close>

theorem geometry_replace_throws:
  "ol_setGeometry sample_factories (Geometry \<lparr>geom_id = 2, coordinates = [(5, 5)]\<rparr>)
     (sample_active_bridge, sample_active_world) = Inl TypeError \<and>
   handleGeometryReplace' sample_factories
     (sample_active_bridge,
      sample_active_world\<lparr>feature := (feature sample_active_world)
        \<lparr>geometry_value := Geometry \<lparr>geom_id = 2, coordinates = [(5, 5)]\<rparr>\<rparr>\<rparr>) = Inl TypeError \<and>
   map listener (listeners sample_active_world) =
     [GeometryChangeHandler, GeometryReplaceHandler] \<and>
   map target (listeners sample_active_world) = [GeometryTarget 1, FeatureTarget] \<and>
   ol_setCoordinates sample_factories [(8, 9)]
     (sample_active_bridge,
      sample_active_world\<lparr>feature := (feature sample_active_world)
        \<lparr>geometry_value := Geometry \<lparr>geom_id = 2, coordinates = [(5, 5)]\<rparr>\<rparr>\<rparr>) =
     Inr (sample_active_bridge,
          sample_active_world\<lparr>feature := (feature sample_active_world)
            \<lparr>geometry_value := Geometry \<lparr>geom_id = 2, coordinates = [(8, 9)]\<rparr>\<rparr>\<rparr>) \<and>
   map_option feature_geometry (gmapFeature' sample_active_bridge) = Some (Some [LatLng 1 1])"
proof -
  have "\<not> same_value (geometry_value (feature sample_active_world))
           (Geometry \<lparr>geom_id = 2, coordinates = [(5, 5)]\<rparr>)"
    by (simp add: sample_active_world_def)
  then have "ol_setGeometry sample_factories (Geometry \<lparr>geom_id = 2, coordinates = [(5, 5)]\<rparr>)
     (sample_active_bridge, sample_active_world) = Inl TypeError"
    by (rule ol_setGeometry_active_throws [OF sample_active_state])
  moreover have "map listener (listeners sample_active_world) =
     [GeometryChangeHandler, GeometryReplaceHandler]"
    "map target (listeners sample_active_world) = [GeometryTarget 1, FeatureTarget]"
    by (simp_all add: sample_active_world_def)
  moreover have "ol_setCoordinates sample_factories [(8, 9)]
     (sample_active_bridge,
      sample_active_world\<lparr>feature := (feature sample_active_world)
        \<lparr>geometry_value := Geometry \<lparr>geom_id = 2, coordinates = [(5, 5)]\<rparr>\<rparr>\<rparr>) =
     Inr (sample_active_bridge,
          sample_active_world\<lparr>feature := (feature sample_active_world)
            \<lparr>geometry_value := Geometry \<lparr>geom_id = 2, coordinates = [(8, 9)]\<rparr>\<rparr>\<rparr>)"
    by (simp add: ol_setCoordinates_def dispatchEvent_def sample_active_world_def)
  moreover have
    "map_option feature_geometry (gmapFeature' sample_active_bridge) = Some (Some [LatLng 1 1])"
    by (simp add: sample_active_bridge_def)
  ultimately show ?thesis
    by (simp add: handleGeometryReplace'_throws)
qed

subsection \<open>Activation followed by deactivation\<close>

text \<open>
  C2: for a source feature with a geometry, \<open>activate\<close> succeeds, and \<open>deactivate\<close> right
  after it leaves the list of listener keys empty with none of the registered keys still
  listening, takes the mirror feature out of the data layer, detaches the overlays and
  clears the references to the mirror feature, the icon marker and the label.
\<close>

theorem activate_deactivate_clean:
  assumes "getGeometry (feature w) = Some g"
  shows "\<exists>b1 w1 f. activate F (b, w) = Inr (b1, w1) \<and> gmapFeature' b1 = Some f \<and>
           (case deactivate (b1, w1) of (b2, w2) \<Rightarrow>
              listenerKeys b2 = [] \<and>
              (\<forall>l \<in> set (listeners w2). key_id l \<notin> set (listenerKeys b1)) \<and>
              feature_id f \<notin> data_features w2 \<and>
              gmapFeature' b2 = None \<and> marker' b2 = None \<and> label' b2 = None \<and>
              (\<forall>m. marker' b1 = Some m \<longrightarrow> icon_id m \<notin> gmap_overlays w2) \<and>
              (\<forall>l. label' b1 = Some l \<longrightarrow> label_id l \<notin> gmap_overlays w2))"
proof -
  obtain b0 w0 where ov:
    "activate_overlays F g (activate_feature F (b\<lparr>active := True\<rparr>, w)) = (b0, w0)"
    by (meson surj_pair)
  have act: "activate F (b, w) = Inr (activate_listeners g (b0, w0))"
    using ov by (simp add: activate_Some [OF assms])
  have gf: "gmapFeature' b0 \<noteq> None"
    using activate_overlays_frame(4)[OF ov[unfolded activate_feature_eq]] by simp
  show ?thesis
    unfolding act activate_listeners_eq using gf
    by (auto simp: deactivate_eq split: option.splits)
qed

theorem activate_deactivate_clean_witness:
  "getGeometry (feature sample_world) = Some \<lparr>geom_id = 1, coordinates = [(1, 1)]\<rparr> \<and>
   (\<exists>b1 w1 f. activate sample_factories (sample_bridge, sample_world) = Inr (b1, w1) \<and>
      gmapFeature' b1 = Some f \<and>
      (case deactivate (b1, w1) of (b2, w2) \<Rightarrow>
         listenerKeys b2 = [] \<and>
         (\<forall>l \<in> set (listeners w2). key_id l \<notin> set (listenerKeys b1)) \<and>
         feature_id f \<notin> data_features w2 \<and>
         gmapFeature' b2 = None \<and> marker' b2 = None \<and> label' b2 = None \<and>
         (\<forall>m. marker' b1 = Some m \<longrightarrow> icon_id m \<notin> gmap_overlays w2) \<and>
         (\<forall>l. label' b1 = Some l \<longrightarrow> label_id l \<notin> gmap_overlays w2)))"
  using activate_deactivate_clean [of sample_world "\<lparr>geom_id = 1, coordinates = [(1, 1)]\<rparr>"
      sample_factories sample_bridge]
  by (simp add: sample_world_def getGeometry_def)

subsection \<open>Activation and the missing geometry\<close>

text \<open>
  C3, as amended: when \<open>getGeometry()\<close> of the source feature is \<open>undefined\<close>, \<open>activate\<close>
  fails with the precondition error of \<open>getGeometry_\<close>, and the caller receives it; when a
  geometry object is attached, \<open>activate\<close> returns normally.
\<close>

theorem activate_needs_geometry:
  "(geometry_value (feature w) = Undefined \<longrightarrow> activate F (b, w) = Inl PreconditionError) \<and>
   (getGeometry (feature w) \<noteq> None \<longrightarrow> (\<exists>s. activate F (b, w) = Inr s))"
  by (auto simp: activate_eq dest: getGeometry_SomeD)

theorem activate_needs_geometry_witness:
  "geometry_value (feature (sample_world\<lparr>feature := (feature sample_world)\<lparr>geometry_value := Undefined\<rparr>\<rparr>))
     = Undefined \<and>
   activate sample_factories
     (sample_bridge, sample_world\<lparr>feature := (feature sample_world)\<lparr>geometry_value := Undefined\<rparr>\<rparr>)
     = Inl PreconditionError \<and>
   getGeometry (feature sample_world) \<noteq> None \<and>
   (\<exists>s. activate sample_factories (sample_bridge, sample_world) = Inr s)"
  using activate_needs_geometry
      [of "sample_world\<lparr>feature := (feature sample_world)\<lparr>geometry_value := Undefined\<rparr>\<rparr>"
        sample_factories sample_bridge]
    activate_needs_geometry [of sample_world sample_factories sample_bridge]
  by (simp add: sample_world_def getGeometry_def)

text \<open>
  The claim as it was stated also covers the feature whose geometry is \<open>null\<close>. There the
  assertion \<open>geometry !== undefined\<close> of \<open>getGeometry_\<close> passes and \<open>null\<close> is returned, so
  \<open>activate\<close> does not fail with the precondition error: it runs on and ends in the
  \<open>TypeError\<close> of line 140.
\<close>

theorem activate_null_geometry_counterexample:
  "getGeometry (feature (sample_world\<lparr>feature := (feature sample_world)\<lparr>geometry_value := Null\<rparr>\<rparr>))
     = None \<and>
   getGeometry' (sample_world\<lparr>feature := (feature sample_world)\<lparr>geometry_value := Null\<rparr>\<rparr>)
     = Inr Null \<and>
   activate sample_factories
     (sample_bridge, sample_world\<lparr>feature := (feature sample_world)\<lparr>geometry_value := Null\<rparr>\<rparr>)
     = Inl TypeError \<and>
   activate sample_factories
     (sample_bridge, sample_world\<lparr>feature := (feature sample_world)\<lparr>geometry_value := Null\<rparr>\<rparr>)
     \<noteq> Inl PreconditionError"
  by (simp add: activate_eq getGeometry'_eq getGeometry_def sample_world_def)

subsection \<open>Visibility\<close>

text \<open>
  C4: for an active and visible bridge, \<open>setVisible(false)\<close> followed by
  \<open>setVisible(true)\<close> gives back the same bridge: the same mirror feature, the same icon
  marker and the same label, with the flag true again. No object is allocated, the mirror
  feature is in the data layer and the overlays that exist are on the map.
\<close>

theorem setVisible_round_trip:
  assumes "active_state (b, w)" and "visible' b"
  shows "\<exists>f. gmapFeature' b = Some f \<and>
           setVisible True (setVisible False (b, w)) =
             (b, w\<lparr>data_features := insert (feature_id f) (data_features w),
                   gmap_overlays :=
                     gmap_overlays w
                       \<union> (case marker' b of Some m \<Rightarrow> {icon_id m} | None \<Rightarrow> {})
                       \<union> (case label' b of Some l \<Rightarrow> {label_id l} | None \<Rightarrow> {}),
                   data_calls :=
                     data_calls w @ [DataRemove (Some (feature_id f)), DataAdd (Some (feature_id f))]\<rparr>) \<and>
           visible' (fst (setVisible True (setVisible False (b, w)))) \<and>
           next_ref (snd (setVisible True (setVisible False (b, w)))) = next_ref w \<and>
           feature_id f \<in> data_features (snd (setVisible True (setVisible False (b, w)))) \<and>
           (\<forall>m. marker' b = Some m \<longrightarrow>
              icon_id m \<in> gmap_overlays (snd (setVisible True (setVisible False (b, w))))) \<and>
           (\<forall>l. label' b = Some l \<longrightarrow>
              label_id l \<in> gmap_overlays (snd (setVisible True (setVisible False (b, w)))))"
proof -
  obtain f where f: "gmapFeature' b = Some f"
    using assms(1) by (auto simp: active_state_def)
  have e: "setVisible True (setVisible False (b, w)) =
             (b, w\<lparr>data_features := insert (feature_id f) (data_features w),
                   gmap_overlays :=
                     gmap_overlays w
                       \<union> (case marker' b of Some m \<Rightarrow> {icon_id m} | None \<Rightarrow> {})
                       \<union> (case label' b of Some l \<Rightarrow> {label_id l} | None \<Rightarrow> {}),
                   data_calls :=
                     data_calls w @ [DataRemove (Some (feature_id f)), DataAdd (Some (feature_id f))]\<rparr>)"
    using f assms(2)
    by (cases "marker' b"; cases "label' b")
      (simp_all add: setVisible_def data_add_def data_remove_def setMap_def insert_Diff_two)
  show ?thesis
    unfolding e using f assms(2) by auto
qed

theorem setVisible_round_trip_witness:
  "active_state (sample_active_bridge, sample_active_world) \<and> visible' sample_active_bridge \<and>
   setVisible True (setVisible False (sample_active_bridge, sample_active_world)) =
     (sample_active_bridge,
      sample_active_world\<lparr>data_calls := [DataAdd (Some 10), DataRemove (Some 10), DataAdd (Some 10)]\<rparr>)"
proof -
  have h1: "active_state (sample_active_bridge, sample_active_world)"
    by (rule sample_active_state)
  have h2: "visible' sample_active_bridge"
    by (simp add: sample_active_bridge_def)
  from setVisible_round_trip [OF h1 h2] obtain f where
    f: "gmapFeature' sample_active_bridge = Some f"
      "setVisible True (setVisible False (sample_active_bridge, sample_active_world)) =
         (sample_active_bridge,
          sample_active_world\<lparr>data_features := insert (feature_id f) (data_features sample_active_world),
            gmap_overlays :=
              gmap_overlays sample_active_world
                \<union> (case marker' sample_active_bridge of Some m \<Rightarrow> {icon_id m} | None \<Rightarrow> {})
                \<union> (case label' sample_active_bridge of Some l \<Rightarrow> {label_id l} | None \<Rightarrow> {}),
            data_calls :=
              data_calls sample_active_world
                @ [DataRemove (Some (feature_id f)), DataAdd (Some (feature_id f))]\<rparr>)"
    by blast
  have "feature_id f = 10"
    using f(1) by (auto simp: sample_active_bridge_def)
  then show ?thesis
    using h1 h2 unfolding f(2)
    by (simp add: sample_active_bridge_def sample_active_world_def insert_commute)
qed

text \<open>
  C5: \<open>setVisible\<close> with the value that the flag already has changes neither the bridge nor
  the world: nothing reaches the data layer and no overlay is attached or detached. Hence a
  second \<open>setVisible\<close> with the same value changes nothing.
\<close>

theorem setVisible_same_value_noop:
  "setVisible (visible' b) (b, w) = (b, w) \<and>
   setVisible v (setVisible v (b, w)) = setVisible v (b, w)"
proof
  show "setVisible (visible' b) (b, w) = (b, w)"
    by (simp add: setVisible_def)
  obtain b1 w1 where s1: "setVisible v (b, w) = (b1, w1)"
    by (meson surj_pair)
  have "visible' b1 = v"
    using setVisible_flag [of v "(b, w)"] s1 by simp
  then show "setVisible v (setVisible v (b, w)) = setVisible v (b, w)"
    unfolding s1 by (auto simp: setVisible_def)
qed

theorem setVisible_same_value_noop_witness:
  "setVisible (visible' sample_active_bridge) (sample_active_bridge, sample_active_world) =
     (sample_active_bridge, sample_active_world) \<and>
   setVisible False (setVisible False (sample_active_bridge, sample_active_world)) =
     setVisible False (sample_active_bridge, sample_active_world)"
  by (rule setVisible_same_value_noop)

subsection \<open>The geometry-change handler\<close>

text \<open>
  C6: in an active state the geometry-change handler returns normally. It sets the geometry
  of the mirror feature and the position of the label and of the icon marker where they
  exist, and nothing else: an absent overlay stays absent, an existing one keeps its
  identity, the visibility flag and the other fields of the bridge are as before, and the
  world (data layer, map surface, registrations, allocation counter) is unchanged.
\<close>

theorem geometry_change_frame:
  assumes "active_state (b, w)"
  shows "\<exists>g f. getGeometry (feature w) = Some g \<and> gmapFeature' b = Some f \<and>
           handleGeometryChange' F (b, w) =
             Inr (b\<lparr>gmapFeature' := Some (f\<lparr>feature_geometry := Some (createFeatureGeometry F g)\<rparr>),
                    label' := map_option
                       (\<lambda>l. l\<lparr>label_position := createLatLng F (getCenterOf F g)\<rparr>) (label' b),
                    marker' := map_option
                       (\<lambda>m. m\<lparr>icon_position := createLatLng F (getCenterOf F g)\<rparr>) (marker' b)\<rparr>,
                  w)"
proof -
  obtain g f where "getGeometry (feature w) = Some g" "gmapFeature' b = Some f"
    using assms by (auto simp: active_state_def split: option.splits)
  then show ?thesis
    by (simp add: handleGeometryChange'_Some)
qed

theorem geometry_change_frame_witness:
  "active_state (sample_active_bridge, sample_active_world) \<and>
   handleGeometryChange' sample_factories (sample_active_bridge, sample_active_world) =
     Inr (sample_active_bridge, sample_active_world)"
  using geometry_change_frame [OF sample_active_state, of sample_factories] sample_active_state
  by (auto simp: sample_active_bridge_def sample_active_world_def sample_factories_def
      getGeometry_def)

subsection \<open>The overlays made by activation\<close>

text \<open>
  C7: \<open>activate\<close> on a feature with a geometry makes a new icon marker exactly when the
  style has an image that is an icon and \<open>useCanvas\<close> is true, and a new label exactly when
  the style has a text; otherwise the field is left as it was. Both are made at the centre
  of the geometry with the z-index of the style when it is defined and the index of the
  bridge otherwise. The allocation counter advances by the mirror feature, the two listener
  keys and the overlays made.
\<close>

theorem activate_creates_overlays:
  assumes "getGeometry (feature w) = Some g"
  shows "\<exists>b1 w1. activate F (b, w) = Inr (b1, w1) \<and>
           (case getStyleOf F (feature w) of
              None \<Rightarrow> marker' b1 = marker' b \<and> label' b1 = label' b \<and> next_ref w1 = next_ref w + 3
            | Some st \<Rightarrow>
                (let latLng = createLatLng F (getCenterOf F g);
                     index = (case getZIndex st of Some z \<Rightarrow> z | None \<Rightarrow> index' b);
                     icon = ((\<exists>src. getImage st = Some (Icon src)) \<and>
                             useCanvas (mapIconOptions' b) = Some True);
                     txt = (getText st \<noteq> None)
                 in (if icon
                     then \<exists>m. marker' b1 = Some m \<and>
                            next_ref w \<le> icon_id m \<and> icon_id m < next_ref w1 \<and>
                            getImage st = Some (icon_image m) \<and>
                            icon_position m = latLng \<and> icon_zIndex m = index
                     else marker' b1 = marker' b) \<and>
                    (if txt
                     then \<exists>l. label' b1 = Some l \<and>
                            next_ref w \<le> label_id l \<and> label_id l < next_ref w1 \<and>
                            getText st = Some (label_text l) \<and>
                            label_position l = latLng \<and> label_zIndex l = index
                     else label' b1 = label' b) \<and>
                    next_ref w1 =
                      next_ref w + 3 + (if icon then 1 else 0) + (if txt then 1 else 0)))"
proof (cases "getStyleOf F (feature w)")
  case None
  then show ?thesis
    by (simp add: activate_Some [OF assms] activate_feature_eq activate_overlays_eq
        activate_listeners_eq)
next
  case (Some st)
  define icon where
    "icon \<longleftrightarrow> (\<exists>src. getImage st = Some (Icon src)) \<and> useCanvas (mapIconOptions' b) = Some True"
  from activate_with_style [OF assms Some icon_def]
  obtain b1 w1 where r: "activate F (b, w) = Inr (b1, w1)"
    "marker' b1 =
       (if icon
        then Some \<lparr>icon_id = Suc (next_ref w), icon_image = the (getImage st),
                   icon_position = createLatLng F (getCenterOf F g),
                   icon_zIndex = (case getZIndex st of Some z \<Rightarrow> z | None \<Rightarrow> index' b)\<rparr>
        else marker' b)"
    "label' b1 =
       (case getText st of
          Some txt \<Rightarrow>
            Some \<lparr>label_id = (if icon then Suc (Suc (next_ref w)) else Suc (next_ref w)),
                  label_text = txt,
                  label_position = createLatLng F (getCenterOf F g),
                  label_zIndex = (case getZIndex st of Some z \<Rightarrow> z | None \<Rightarrow> index' b)\<rparr>
        | None \<Rightarrow> label' b)"
    "next_ref w1 =
       next_ref w + 3 + (if icon then 1 else 0) + (if getText st = None then 0 else 1)"
    by blast
  have img: "icon \<Longrightarrow> getImage st = Some (the (getImage st))"
    by (auto simp: icon_def)
  show ?thesis
    unfolding Some option.case Let_def icon_def [symmetric]
    using r img by (cases icon; cases "getText st") auto
qed

theorem activate_creates_overlays_witness:
  "getGeometry (feature sample_world) = Some \<lparr>geom_id = 1, coordinates = [(1, 1)]\<rparr> \<and>
   (\<exists>b1 w1 m l.
      activate sample_factories (sample_bridge, sample_world) = Inr (b1, w1) \<and>
      marker' b1 = Some m \<and> icon_zIndex m = 7 \<and> icon_position m = LatLng 1 1 \<and>
      label' b1 = Some l \<and> label_zIndex l = 7 \<and> label_position l = LatLng 1 1 \<and>
      next_ref w1 = 15) \<and>
   (\<exists>b1 w1 l.
      activate sample_factories
        (sample_bridge\<lparr>mapIconOptions' := \<lparr>useCanvas = Some False\<rparr>\<rparr>, sample_world) = Inr (b1, w1) \<and>
      marker' b1 = None \<and> label' b1 = Some l \<and> next_ref w1 = 14)"
proof -
  have g: "getGeometry (feature sample_world) = Some \<lparr>geom_id = 1, coordinates = [(1, 1)]\<rparr>"
    by (simp add: sample_world_def getGeometry_def)
  have st: "getStyleOf sample_factories (feature sample_world) = Some sample_style"
    by (simp add: sample_world_def sample_factories_def)
  have both: "\<exists>b1 w1 m l.
      activate sample_factories (sample_bridge, sample_world) = Inr (b1, w1) \<and>
      marker' b1 = Some m \<and> icon_zIndex m = 7 \<and> icon_position m = LatLng 1 1 \<and>
      label' b1 = Some l \<and> label_zIndex l = 7 \<and> label_position l = LatLng 1 1 \<and>
      next_ref w1 = 15"
    using activate_creates_overlays [OF g, of sample_factories sample_bridge]
    unfolding st option.case Let_def
    by (auto simp: sample_world_def sample_factories_def sample_style_def sample_bridge_def
        Feature_def)
  have one: "\<exists>b1 w1 l.
      activate sample_factories
        (sample_bridge\<lparr>mapIconOptions' := \<lparr>useCanvas = Some False\<rparr>\<rparr>, sample_world) = Inr (b1, w1) \<and>
      marker' b1 = None \<and> label' b1 = Some l \<and> next_ref w1 = 14"
    using activate_creates_overlays [OF g, of sample_factories
        "sample_bridge\<lparr>mapIconOptions' := \<lparr>useCanvas = Some False\<rparr>\<rparr>"]
    unfolding st option.case Let_def
    by (auto simp: sample_world_def sample_factories_def sample_style_def sample_bridge_def
        Feature_def)
  from g both one show ?thesis by blast
qed

subsection \<open>Deactivation twice\<close>

text \<open>
  What a second \<open>deactivate\<close> does in general: the bridge is returned as it is, and the data
  layer receives one more call, \<open>remove\<close> with the null reference.
\<close>

lemma deactivate_again:
  "(case deactivate s of (b1, w1) \<Rightarrow>
      deactivate (b1, w1) = (b1, data_remove None w1) \<and>
      listenerKeys b1 = [] \<and> gmapFeature' b1 = None \<and> marker' b1 = None \<and> label' b1 = None)"
  by (cases s) (simp add: deactivate_eq data_remove_def)

text \<open>
  C8: a second \<open>deactivate\<close> right after the first is to be a no-op. The code does not do
  this. The references to the icon marker and to the label are tested before they are used
  (lines 160 and 166), the reference to the mirror feature is not (line 156). Starting from
  the active sample state, the first \<open>deactivate\<close> removes mirror feature 10 and clears the
  reference; the second one leaves the bridge as it is but calls \<open>remove\<close> of the data layer
  again, now with the null reference, so the two states differ.
\<close>

theorem deactivate_twice_remove_null:
  "fst (deactivate (deactivate (sample_active_bridge, sample_active_world))) =
     fst (deactivate (sample_active_bridge, sample_active_world)) \<and>
   gmapFeature' (fst (deactivate (sample_active_bridge, sample_active_world))) = None \<and>
   data_calls (snd (deactivate (sample_active_bridge, sample_active_world))) =
     [DataAdd (Some 10), DataRemove (Some 10)] \<and>
   data_calls (snd (deactivate (deactivate (sample_active_bridge, sample_active_world)))) =
     [DataAdd (Some 10), DataRemove (Some 10), DataRemove None] \<and>
   deactivate (deactivate (sample_active_bridge, sample_active_world)) \<noteq>
     deactivate (sample_active_bridge, sample_active_world)"
  by (simp add: deactivate_eq sample_active_bridge_def sample_active_world_def)

subsection \<open>The default of the canvas option\<close>

text \<open>
  C9: when \<open>useCanvas\<close> is undefined in the icon options, \<open>activate\<close> makes no icon marker,
  whatever the style is: it either ends in an error, which happens only when the feature
  has no geometry object, or leaves the marker field as it was and allocates the mirror
  feature, the two listener keys and at most the label.
\<close>

theorem useCanvas_undefined_no_marker:
  assumes "useCanvas (mapIconOptions' b) = None"
  shows "case activate F (b, w) of
           Inl e \<Rightarrow> getGeometry (feature w) = None
         | Inr (b1, w1) \<Rightarrow>
             marker' b1 = marker' b \<and>
             next_ref w1 =
               next_ref w + 3 +
                 (case getStyleOf F (feature w) of
                    None \<Rightarrow> 0
                  | Some st \<Rightarrow> (if getText st = None then 0 else 1))"
proof (cases "getGeometry (feature w)")
  case None
  from activate_None [OF this] obtain e where "activate F (b, w) = Inl e"
    by blast
  with None show ?thesis by simp
next
  case g: (Some g)
  show ?thesis
  proof (cases "getStyleOf F (feature w)")
    case None
    then show ?thesis
      by (simp add: activate_Some [OF g] activate_feature_eq activate_overlays_eq
          activate_listeners_eq)
  next
    case (Some st)
    have "False \<longleftrightarrow>
        (\<exists>src. getImage st = Some (Icon src)) \<and> useCanvas (mapIconOptions' b) = Some True"
      using assms by simp
    from activate_with_style [OF g Some this] show ?thesis
      using Some by auto
  qed
qed

theorem useCanvas_undefined_no_marker_witness:
  "useCanvas (mapIconOptions' (sample_bridge\<lparr>mapIconOptions' := \<lparr>useCanvas = None\<rparr>\<rparr>)) = None \<and>
   (\<exists>b1 w1.
      activate sample_factories
        (sample_bridge\<lparr>mapIconOptions' := \<lparr>useCanvas = None\<rparr>\<rparr>, sample_world) = Inr (b1, w1) \<and>
      marker' b1 = None \<and> next_ref w1 = 14)"
  using useCanvas_undefined_no_marker
      [where b = "sample_bridge\<lparr>mapIconOptions' := \<lparr>useCanvas = None\<rparr>\<rparr>"
        and F = sample_factories and w = sample_world]
  by (auto simp: sample_world_def sample_factories_def sample_style_def sample_bridge_def
      Feature_def activate_eq getGeometry_def split: sum.splits)

subsection \<open>Visibility of an inactive bridge\<close>

text \<open>
  C10: a bridge that was just constructed, or just deactivated, has no mirror feature.
  \<open>setVisible\<close> with a value different from the flag then flips the flag and calls \<open>add\<close>
  or \<open>remove\<close> of the data layer with the null reference.
\<close>

theorem setVisible_inactive_null:
  assumes "b = Feature options \<or> b = fst (deactivate s)" and "v \<noteq> visible' b"
  shows "gmapFeature' b = None \<and>
         setVisible v (b, w) =
           (b\<lparr>visible' := v\<rparr>, (if v then data_add None w else data_remove None w)) \<and>
         data_calls (snd (setVisible v (b, w))) =
           data_calls w @ [if v then DataAdd None else DataRemove None]"
proof -
  have n: "gmapFeature' b = None \<and> marker' b = None \<and> label' b = None"
    using assms(1) by (cases s) (auto simp: Feature_def deactivate_eq)
  show ?thesis
    using n assms(2) by (auto simp: setVisible_def data_add_def data_remove_def)
qed

theorem setVisible_inactive_null_witness:
  "(sample_bridge = sample_bridge \<or>
    sample_bridge = fst (deactivate (sample_active_bridge, sample_active_world))) \<and>
   False \<noteq> visible' sample_bridge \<and>
   data_calls (snd (setVisible False (sample_bridge, sample_world))) = [DataRemove None] \<and>
   False \<noteq> visible' (fst (deactivate (sample_active_bridge, sample_active_world))) \<and>
   data_calls (snd (setVisible False
      (fst (deactivate (sample_active_bridge, sample_active_world)), sample_world))) =
     [DataRemove None]"
proof -
  let ?o = "\<lparr>opt_index = 3, opt_mapIconOptions = \<lparr>useCanvas = Some True\<rparr>, opt_visible = None\<rparr>"
  let ?s = "(sample_active_bridge, sample_active_world)"
  have c1: "sample_bridge = Feature ?o \<or> sample_bridge = fst (deactivate ?s)"
    by (simp add: sample_bridge_def)
  have v1: "False \<noteq> visible' sample_bridge"
    by (simp add: sample_bridge_def Feature_def)
  have c2: "fst (deactivate ?s) = Feature ?o \<or> fst (deactivate ?s) = fst (deactivate ?s)"
    by simp
  have v2: "False \<noteq> visible' (fst (deactivate ?s))"
    by (simp add: deactivate_eq sample_active_bridge_def)
  have e: "data_calls sample_world = []"
    by (simp add: sample_world_def)
  from setVisible_inactive_null [OF c1 v1, of sample_world]
    setVisible_inactive_null [OF c2 v2, of sample_world]
  show ?thesis
    using v1 v2 e by (simp add: data_remove_def)
qed

end
